theory Spec2Isabelle
  imports Complex_Main "HOL-Library.Sublist"
begin

section \<open>Values exchanged with the remote API\<close>

text \<open>
  \<open>response.json()\<close> yields an arbitrary Python value built from JSON. Python's \<open>None\<close> is
  \<open>JNull\<close>, a \<open>dict\<close> is an association list that holds each key once (as the parsed
  dictionary does), looked up with \<open>map_of\<close>. Numbers only matter to this program through
  their truth value.
\<close>

datatype json =
    JNull
  | JBool bool
  | JNum real
  | JStr string
  | JArr "json list"
  | JObj "(string \<times> json) list"

text \<open>The exceptions that escape a request handler.\<close>

datatype exn = AttributeError | TypeError | UnboundLocalError

text \<open>Python truth value: \<open>None\<close>, \<open>False\<close>, zero and the empty containers are false.\<close>

fun truthy :: "json \<Rightarrow> bool" where
  "truthy JNull = False"
| "truthy (JBool b) = b"
| "truthy (JNum r) = (r \<noteq> 0)"
| "truthy (JStr s) = (s \<noteq> [])"
| "truthy (JArr xs) = (xs \<noteq> [])"
| "truthy (JObj kvs) = (kvs \<noteq> [])"

text \<open>\<open>v.get(k, d)\<close>: only a \<open>dict\<close> has the method; on any other value the attribute
  lookup raises.\<close>

fun py_get :: "json \<Rightarrow> string \<Rightarrow> json \<Rightarrow> exn + json" where
  "py_get (JObj kvs) k d = Inr (case map_of kvs k of Some v \<Rightarrow> v | None \<Rightarrow> d)"
| "py_get _ k d = Inl AttributeError"

text \<open>\<open>for item in v\<close>: a list yields its elements, a \<open>dict\<close> its keys, a string its
  one-character strings; nothing else is iterable.\<close>

fun py_iter :: "json \<Rightarrow> exn + json list" where
  "py_iter (JArr xs) = Inr xs"
| "py_iter (JObj kvs) = Inr (map (\<lambda>kv. JStr (fst kv)) kvs)"
| "py_iter (JStr s) = Inr (map (\<lambda>c. JStr [c]) s)"
| "py_iter _ = Inl TypeError"

text \<open>\<open>[item for item in items if cond(item)]\<close>, the condition evaluated item by item from
  the left; the first exception it raises ends the comprehension.\<close>

fun comprehension :: "(json \<Rightarrow> exn + bool) \<Rightarrow> json list \<Rightarrow> exn + json list" where
  "comprehension cond [] = Inr []"
| "comprehension cond (item # rest) =
     (case cond item of
        Inl e \<Rightarrow> Inl e
      | Inr keep \<Rightarrow>
          (case comprehension cond rest of
             Inl e \<Rightarrow> Inl e
           | Inr kept \<Rightarrow> Inr (if keep then item # kept else kept)))"

section \<open>The filter of the listing page\<close>

definition doc_types :: "string list" where
  "doc_types = [''doc'', ''docx'', ''pdf'', ''txt'', ''xls'', ''xlsx'', ''ppt'', ''pptx'']"

definition img_types :: "string list" where
  "img_types = [''jpg'', ''jpeg'', ''png'', ''gif'', ''bmp'']"

text \<open>\<open>item.get('type') == 'dir'\<close>\<close>

definition is_dir :: "json \<Rightarrow> exn + bool" where
  "is_dir item =
     (case py_get item ''type'' JNull of
        Inl e \<Rightarrow> Inl e
      | Inr t \<Rightarrow> Inr (t = JStr ''dir''))"

text \<open>\<open>item.get('type') == 'file' and item.get('file', {}).get('extension') in types\<close>:
  the right operand is evaluated only when the left one holds.\<close>

definition is_file_of :: "string list \<Rightarrow> json \<Rightarrow> exn + bool" where
  "is_file_of types item =
     (case py_get item ''type'' JNull of
        Inl e \<Rightarrow> Inl e
      | Inr t \<Rightarrow>
          if t \<noteq> JStr ''file'' then Inr False
          else
            (case py_get item ''file'' (JObj []) of
               Inl e \<Rightarrow> Inl e
             | Inr f \<Rightarrow>
                 (case py_get f ''extension'' JNull of
                    Inl e \<Rightarrow> Inl e
                  | Inr ext \<Rightarrow> Inr (ext \<in> set (map JStr types)))))"

text \<open>The \<open>if\<close>/\<open>elif\<close> chain of \<open>files\<close>: a comprehension rebinds \<open>items\<close> to a new list,
  any other \<open>filter_type\<close> leaves \<open>items\<close> as it was extracted.\<close>

definition filter_by :: "(json \<Rightarrow> exn + bool) \<Rightarrow> json \<Rightarrow> exn + json" where
  "filter_by cond items =
     (case py_iter items of
        Inl e \<Rightarrow> Inl e
      | Inr xs \<Rightarrow>
          (case comprehension cond xs of
             Inl e \<Rightarrow> Inl e
           | Inr kept \<Rightarrow> Inr (JArr kept)))"

definition filter_items :: "string \<Rightarrow> json \<Rightarrow> exn + json" where
  "filter_items filter_type items =
     (if filter_type = ''folder'' then filter_by is_dir items
      else if filter_type = ''document'' then filter_by (is_file_of doc_types) items
      else if filter_type = ''image'' then filter_by (is_file_of img_types) items
      else Inr items)"

section \<open>The remote API as seen by the program\<close>

text \<open>
  One \<open>requests.get\<close> followed by \<open>raise_for_status\<close>: either \<open>requests.get\<close> itself raises a
  \<open>RequestException\<close> (no connection, timeout, invalid URL), before anything is assigned to
  \<open>response\<close>; or a response arrives and \<open>raise_for_status\<close> raises \<open>HTTPError\<close> for its
  error status; or the response is returned. Each exception carries its text.
\<close>

datatype 'a http_result = GetRaises string | StatusRaises string | Response 'a

text \<open>\<open>response.json()\<close> either raises \<open>requests.JSONDecodeError\<close>, which is a
  \<open>RequestException\<close>, or returns the parsed value.\<close>

datatype json_body = JsonRaises string | Json json

type_synonym bytes = "char list"

record remote =
  listing :: "string \<Rightarrow> string \<Rightarrow> json_body http_result"
  download_href :: "string \<Rightarrow> string \<Rightarrow> json_body http_result"
  fetch :: "json \<Rightarrow> bytes http_result"

text \<open>The outbound calls a handler has issued, in order. The listing call always carries
  \<open>limit = 1000\<close> and \<open>offset = 0\<close>.\<close>

datatype call =
    ListCall string string
  | HrefCall string string
  | FetchCall json

text \<open>
  The handler of \<open>RequestException\<close> in \<open>get_public_resources\<close> and \<open>get_download_href\<close>:
  after printing the exception it evaluates \<open>response is not None\<close>. \<open>response\<close> is a local
  variable assigned only by \<open>requests.get\<close> inside the \<open>try\<close>, so reading it when that call
  raised is an \<open>UnboundLocalError\<close>; otherwise the function returns \<open>None\<close>.
\<close>

definition except_handler :: "bool \<Rightarrow> exn + json" where
  "except_handler response_bound =
     (if response_bound then Inr JNull else Inl UnboundLocalError)"

definition get_public_resources :: "remote \<Rightarrow> string \<Rightarrow> string \<Rightarrow> call list \<times> (exn + json)" where
  "get_public_resources env public_key path =
     ([ListCall public_key path],
      case listing env public_key path of
        GetRaises e \<Rightarrow> except_handler False
      | StatusRaises e \<Rightarrow> except_handler True
      | Response (JsonRaises e) \<Rightarrow> except_handler True
      | Response (Json data) \<Rightarrow> Inr data)"

definition get_download_href :: "remote \<Rightarrow> string \<Rightarrow> string \<Rightarrow> call list \<times> (exn + json)" where
  "get_download_href env public_key path =
     ([HrefCall public_key path],
      case download_href env public_key path of
        GetRaises e \<Rightarrow> except_handler False
      | StatusRaises e \<Rightarrow> except_handler True
      | Response (JsonRaises e) \<Rightarrow> except_handler True
      | Response (Json data) \<Rightarrow> py_get data ''href'' JNull)"

section \<open>Request handlers\<close>

text \<open>Query arguments: \<open>request.args.get(k)\<close> is the first value given for \<open>k\<close>, or \<open>None\<close>.\<close>

type_synonym args = "(string \<times> string) list"

definition args_get :: "args \<Rightarrow> string \<Rightarrow> string option" where
  "args_get a k = map_of a k"

definition args_get_default :: "args \<Rightarrow> string \<Rightarrow> string \<Rightarrow> string" where
  "args_get_default a k d = (case map_of a k of Some v \<Rightarrow> v | None \<Rightarrow> d)"

text \<open>Truth value of an optional string: \<open>None\<close> and \<open>""\<close> are false.\<close>

fun present :: "string option \<Rightarrow> bool" where
  "present None = False"
| "present (Some s) = (s \<noteq> [])"

text \<open>
  The flashed messages, by meaning: \<open>ListingFailed\<close> is "could not get the data from
  Yandex.Disk, check the link", \<open>LinkMissing\<close> "the public link is missing",
  \<open>BadDownloadParams\<close> "incorrect download parameters", \<open>HrefFailed\<close> "could not get the
  download link", \<open>DownloadError e\<close> "error while downloading the file: e".
\<close>

datatype message =
    LinkMissing
  | ListingFailed
  | BadDownloadParams
  | HrefFailed
  | DownloadError string

text \<open>\<open>url_for('index')\<close> and \<open>url_for('files', public_key=k)\<close>.\<close>

datatype url = UrlIndex | UrlFiles "string option"

datatype response =
    Redirect url
  | RenderFiles json string string
  | SendFile bytes string

text \<open>What one request did: the outbound calls, the flashed messages with their
  category, and the response, or the exception that left the handler.\<close>

record reply =
  calls :: "call list"
  flashes :: "(message \<times> string) list"
  outcome :: "exn + response"

text \<open>\<open>resources.get('_embedded', {}).get('items', [])\<close>\<close>

definition embedded_items :: "json \<Rightarrow> exn + json" where
  "embedded_items resources =
     (case py_get resources ''_embedded'' (JObj []) of
        Inl e \<Rightarrow> Inl e
      | Inr embedded \<Rightarrow> py_get embedded ''items'' (JArr []))"

definition files :: "remote \<Rightarrow> args \<Rightarrow> reply" where
  "files env a =
     (let path = args_get_default a ''path'' [];
          filter_type = args_get_default a ''filter'' []
      in case args_get a ''public_key'' of
           None \<Rightarrow>
             \<lparr>calls = [], flashes = [(LinkMissing, ''danger'')],
              outcome = Inr (Redirect UrlIndex)\<rparr>
         | Some public_key \<Rightarrow>
             if public_key = [] then
               \<lparr>calls = [], flashes = [(LinkMissing, ''danger'')],
                outcome = Inr (Redirect UrlIndex)\<rparr>
             else
               (case get_public_resources env public_key path of
                  (cs, Inl e) \<Rightarrow> \<lparr>calls = cs, flashes = [], outcome = Inl e\<rparr>
                | (cs, Inr resources) \<Rightarrow>
                    if \<not> truthy resources then
                      \<lparr>calls = cs, flashes = [(ListingFailed, ''danger'')],
                       outcome = Inr (Redirect UrlIndex)\<rparr>
                    else
                      (case embedded_items resources of
                         Inl e \<Rightarrow> \<lparr>calls = cs, flashes = [], outcome = Inl e\<rparr>
                       | Inr items \<Rightarrow>
                           (case filter_items filter_type items of
                              Inl e \<Rightarrow> \<lparr>calls = cs, flashes = [], outcome = Inl e\<rparr>
                            | Inr items' \<Rightarrow>
                                \<lparr>calls = cs, flashes = [],
                                 outcome = Inr (RenderFiles items' public_key path)\<rparr>))))"

definition download :: "remote \<Rightarrow> args \<Rightarrow> reply" where
  "download env a =
     (let public_key = args_get a ''public_key'';
          path = args_get a ''path'';
          name = args_get a ''name''
      in case (public_key, path, name) of
           (Some pk, Some p, Some n) \<Rightarrow>
             if pk = [] \<or> p = [] \<or> n = [] then
               \<lparr>calls = [], flashes = [(BadDownloadParams, ''danger'')],
                outcome = Inr (Redirect (UrlFiles public_key))\<rparr>
             else
               (case get_download_href env pk p of
                  (cs, Inl e) \<Rightarrow> \<lparr>calls = cs, flashes = [], outcome = Inl e\<rparr>
                | (cs, Inr href) \<Rightarrow>
                    if \<not> truthy href then
                      \<lparr>calls = cs, flashes = [(HrefFailed, ''danger'')],
                       outcome = Inr (Redirect (UrlFiles public_key))\<rparr>
                    else
                      (case fetch env href of
                         GetRaises e \<Rightarrow>
                           \<lparr>calls = cs @ [FetchCall href],
                            flashes = [(DownloadError e, ''danger'')],
                            outcome = Inr (Redirect (UrlFiles public_key))\<rparr>
                       | StatusRaises e \<Rightarrow>
                           \<lparr>calls = cs @ [FetchCall href],
                            flashes = [(DownloadError e, ''danger'')],
                            outcome = Inr (Redirect (UrlFiles public_key))\<rparr>
                       | Response content \<Rightarrow>
                           \<lparr>calls = cs @ [FetchCall href], flashes = [],
                            outcome = Inr (SendFile content n)\<rparr>))
         | _ \<Rightarrow>
             \<lparr>calls = [], flashes = [(BadDownloadParams, ''danger'')],
              outcome = Inr (Redirect (UrlFiles public_key))\<rparr>)"

section \<open>The Resource Entry of the specification\<close>

text \<open>
  A Resource Entry is a dictionary; its \<open>file\<close> field, when present, is a dictionary too
  and holds the extension. \<open>entry_type\<close> and \<open>entry_extension\<close> read the two fields the
  filter looks at (\<open>JNull\<close> when absent). The three predicates below restate the filter
  categories in the words of the specification.
\<close>

fun is_dict :: "json \<Rightarrow> bool" where
  "is_dict (JObj kvs) = True"
| "is_dict _ = False"

definition is_entry :: "json \<Rightarrow> bool" where
  "is_entry e =
     (case e of
        JObj kvs \<Rightarrow> (case map_of kvs ''file'' of None \<Rightarrow> True | Some f \<Rightarrow> is_dict f)
      | _ \<Rightarrow> False)"

definition entry_type :: "json \<Rightarrow> json" where
  "entry_type e =
     (case e of
        JObj kvs \<Rightarrow> (case map_of kvs ''type'' of Some t \<Rightarrow> t | None \<Rightarrow> JNull)
      | _ \<Rightarrow> JNull)"

definition entry_extension :: "json \<Rightarrow> json" where
  "entry_extension e =
     (case e of
        JObj kvs \<Rightarrow>
          (case map_of kvs ''file'' of
             Some (JObj f) \<Rightarrow> (case map_of f ''extension'' of Some x \<Rightarrow> x | None \<Rightarrow> JNull)
           | _ \<Rightarrow> JNull)
      | _ \<Rightarrow> JNull)"

definition is_folder :: "json \<Rightarrow> bool" where
  "is_folder e = (entry_type e = JStr ''dir'')"

definition is_document :: "json \<Rightarrow> bool" where
  "is_document e =
     (entry_type e = JStr ''file'' \<and>
      entry_extension e \<in>
        {JStr ''doc'', JStr ''docx'', JStr ''pdf'', JStr ''txt'',
         JStr ''xls'', JStr ''xlsx'', JStr ''ppt'', JStr ''pptx''})"

definition is_image :: "json \<Rightarrow> bool" where
  "is_image e =
     (entry_type e = JStr ''file'' \<and>
      entry_extension e \<in> {JStr ''jpg'', JStr ''jpeg'', JStr ''png'', JStr ''gif'', JStr ''bmp''})"

definition selects :: "string \<Rightarrow> json \<Rightarrow> bool" where
  "selects category e =
     (if category = ''folder'' then is_folder e
      else if category = ''document'' then is_document e
      else if category = ''image'' then is_image e
      else True)"

section \<open>Sample data\<close>

definition photos :: json where
  "photos = JObj [(''type'', JStr ''dir''), (''name'', JStr ''Photos'')]"

definition a_pdf :: json where
  "a_pdf = JObj [(''type'', JStr ''file''), (''name'', JStr ''a.pdf''),
                 (''file'', JObj [(''extension'', JStr ''pdf'')])]"

definition b_PDF :: json where
  "b_PDF = JObj [(''type'', JStr ''file''), (''name'', JStr ''b.PDF''),
                 (''file'', JObj [(''extension'', JStr ''PDF'')])]"

definition c_png :: json where
  "c_png = JObj [(''type'', JStr ''file''), (''name'', JStr ''c.png''),
                 (''file'', JObj [(''extension'', JStr ''png'')])]"

definition link :: string where
  "link = ''https://disk.yandex.ru/d/abc''"

text \<open>A remote that answers every API call with the same JSON body, and one that cannot
  be reached at all.\<close>

definition serving :: "json \<Rightarrow> remote" where
  "serving body =
     \<lparr>listing = (\<lambda>public_key path. Response (Json body)),
      download_href = (\<lambda>public_key path. Response (Json body)),
      fetch = (\<lambda>href. Response ''bytes'')\<rparr>"

definition offline :: remote where
  "offline =
     \<lparr>listing = (\<lambda>public_key path. GetRaises ''ConnectionError''),
      download_href = (\<lambda>public_key path. GetRaises ''ConnectionError''),
      fetch = (\<lambda>href. GetRaises ''ConnectionError'')\<rparr>"

section \<open>The comprehension as a filter\<close>

lemma comprehension_filter:
  "list_all (\<lambda>x. cond x = Inr (P x)) xs \<Longrightarrow> comprehension cond xs = Inr (filter P xs)"
  by (induction xs) auto

lemma comprehension_Inr:
  "comprehension cond xs = Inr ys \<Longrightarrow> ys = filter (\<lambda>x. cond x = Inr True) xs"
  by (induction xs arbitrary: ys) (auto split: sum.splits if_splits)

lemma is_entry_dict: "is_entry e \<Longrightarrow> is_dict e"
  by (cases e) (auto simp: is_entry_def)

lemma is_dir_dict: "is_dict e \<Longrightarrow> is_dir e = Inr (is_folder e)"
  by (cases e) (auto simp: is_dir_def is_folder_def entry_type_def split: option.splits)

lemma is_file_of_entry:
  "is_entry e \<Longrightarrow>
     is_file_of types e =
       Inr (entry_type e = JStr ''file'' \<and> entry_extension e \<in> JStr ` set types)"
  by (cases e)
    (auto simp: is_entry_def is_file_of_def entry_type_def entry_extension_def
          split: option.splits json.splits)

lemma is_document_entry: "is_entry e \<Longrightarrow> is_file_of doc_types e = Inr (is_document e)"
  by (simp add: is_file_of_entry is_document_def doc_types_def)

lemma is_image_entry: "is_entry e \<Longrightarrow> is_file_of img_types e = Inr (is_image e)"
  by (simp add: is_file_of_entry is_image_def img_types_def)

lemma filter_by_list:
  "list_all (\<lambda>x. cond x = Inr (P x)) xs \<Longrightarrow> filter_by cond (JArr xs) = Inr (JArr (filter P xs))"
  by (simp add: filter_by_def comprehension_filter)

lemma filter_folder_dicts:
  "list_all is_dict xs \<Longrightarrow> filter_items ''folder'' (JArr xs) = Inr (JArr (filter is_folder xs))"
  by (simp add: filter_items_def filter_by_list list_all_iff is_dir_dict)

lemma filter_items_entries:
  assumes "list_all is_entry xs"
  shows "filter_items category (JArr xs) = Inr (JArr (filter (selects category) xs))"
proof -
  from assms have d: "list_all (\<lambda>x. is_dir x = Inr (is_folder x)) xs"
    and f: "list_all (\<lambda>x. is_file_of doc_types x = Inr (is_document x)) xs"
    and i: "list_all (\<lambda>x. is_file_of img_types x = Inr (is_image x)) xs"
    by (simp_all add: list_all_iff is_dir_dict is_entry_dict is_document_entry is_image_entry)
  consider "category = ''folder''" | "category = ''document''" | "category = ''image''"
    | "category \<notin> {''folder'', ''document'', ''image''}"
    by auto
  then show ?thesis
  proof cases
    case 1
    with d show ?thesis
      by (simp add: filter_items_def selects_def filter_by_list [where P = is_folder] cong: filter_cong)
  next
    case 2
    with f show ?thesis
      by (simp add: filter_items_def selects_def filter_by_list [where P = is_document] cong: filter_cong)
  next
    case 3
    with i show ?thesis
      by (simp add: filter_items_def selects_def filter_by_list [where P = is_image] cong: filter_cong)
  next
    case 4
    then show ?thesis
      by (simp add: filter_items_def selects_def)
  qed
qed

lemma filter_by_again:
  assumes "filter_by cond v = Inr w"
  shows "filter_by cond w = Inr w"
proof -
  from assms obtain xs ys where c: "comprehension cond xs = Inr ys" and w: "w = JArr ys"
    by (auto simp: filter_by_def split: sum.splits)
  from comprehension_Inr [OF c] have "list_all (\<lambda>x. cond x = Inr True) ys"
    by (simp add: list_all_iff)
  then have "comprehension cond ys = Inr (filter (\<lambda>x. True) ys)"
    by (rule comprehension_filter)
  with w show ?thesis
    by (simp add: filter_by_def)
qed

lemma filter_items_again: "filter_items category v = Inr w \<Longrightarrow> filter_items category w = Inr w"
  by (auto simp: filter_items_def filter_by_again split: if_splits)

section \<open>The filter stage\<close>

text \<open>
  C8. With an empty or unrecognised category (any string other than \<open>folder\<close>, \<open>document\<close>
  and \<open>image\<close>) the filter is the identity: whatever was extracted from the listing is
  passed on unchanged, in the same order.
\<close>

theorem filter_other_category_identity:
  assumes "category \<notin> {''folder'', ''document'', ''image''}"
  shows "filter_items category items = Inr items"
  using assms by (simp add: filter_items_def)

theorem filter_other_category_identity_witness:
  "''video'' \<notin> {''folder'', ''document'', ''image''} \<and>
   filter_items ''video'' (JArr [photos, a_pdf, b_PDF, c_png]) = Inr (JArr [photos, a_pdf, b_PDF, c_png])"
  using filter_other_category_identity [of "''video''" "JArr [photos, a_pdf, b_PDF, c_png]"]
  by simp

text \<open>
  C2. On a list of entries the \<open>document\<close> filter keeps exactly the entries whose type is
  \<open>file\<close> and whose extension is one of doc, docx, pdf, txt, xls, xlsx, ppt, pptx, compared
  as the strings are (an upper-case \<open>PDF\<close> does not match): the result is the input with
  the other entries removed, so every kept entry satisfies the predicate and every input
  entry that satisfies it is kept.
\<close>

theorem filter_document_exact:
  assumes "list_all is_entry items"
  shows "filter_items ''document'' (JArr items) = Inr (JArr (filter is_document items))"
  using filter_items_entries [OF assms, of "''document''"]
  by (simp add: selects_def cong: filter_cong)

theorem filter_document_exact_witness:
  "list_all is_entry [photos, a_pdf, b_PDF, c_png] \<and>
   filter_items ''document'' (JArr [photos, a_pdf, b_PDF, c_png]) = Inr (JArr [a_pdf])"
  using filter_document_exact [of "[photos, a_pdf, b_PDF, c_png]"]
  by (simp add: is_entry_def is_document_def entry_type_def entry_extension_def
      photos_def a_pdf_def b_PDF_def c_png_def)

text \<open>
  C6. On a list of dictionaries, so on every list of entries, the \<open>folder\<close> filter
  returns a list whose elements all come from the input and all have type \<open>dir\<close>.
\<close>

theorem filter_folder_subset:
  assumes "list_all is_dict items"
  shows "\<exists>kept. filter_items ''folder'' (JArr items) = Inr (JArr kept) \<and>
           set kept \<subseteq> set items \<and> (\<forall>e \<in> set kept. entry_type e = JStr ''dir'')"
  using filter_folder_dicts [OF assms]
  by (auto simp: is_folder_def)

theorem filter_folder_subset_witness:
  "list_all is_dict [photos, a_pdf, b_PDF, c_png] \<and>
   filter_items ''folder'' (JArr [photos, a_pdf, b_PDF, c_png]) = Inr (JArr [photos]) \<and>
   entry_type photos = JStr ''dir''"
  using filter_folder_subset [of "[photos, a_pdf, b_PDF, c_png]"]
  by (simp add: filter_items_def filter_by_def is_dir_def entry_type_def
      photos_def a_pdf_def b_PDF_def c_png_def)

text \<open>
  C7. Filtering is idempotent: for every list of entries and every category (empty,
  \<open>folder\<close>, \<open>document\<close>, \<open>image\<close> or any other string) the filter returns a list, and the
  filter applied to that list with the same category returns it again.
\<close>

theorem filter_idempotent:
  assumes "list_all is_entry items"
  shows "\<exists>kept. filter_items category (JArr items) = Inr (JArr kept) \<and>
           filter_items category (JArr kept) = Inr (JArr kept)"
  using filter_items_entries [OF assms, of category] filter_items_again
  by blast

theorem filter_idempotent_witness:
  "list_all is_entry [photos, a_pdf, b_PDF, c_png] \<and>
   filter_items ''image'' (JArr [photos, a_pdf, b_PDF, c_png]) = Inr (JArr [c_png]) \<and>
   filter_items ''image'' (JArr [c_png]) = Inr (JArr [c_png])"
  using filter_idempotent [of "[photos, a_pdf, b_PDF, c_png]" "''image''"]
  by (simp add: is_entry_def filter_items_def filter_by_def is_file_of_def img_types_def
      photos_def a_pdf_def b_PDF_def c_png_def)

text \<open>
  C10. Every category yields an order-preserving subsequence of its input: for every list
  of entries the filter returns a list obtained from the input by deleting entries, so
  the kept entries stand in their original order, none is repeated and none is new.
\<close>

theorem filter_subsequence:
  assumes "list_all is_entry items"
  shows "\<exists>kept. filter_items category (JArr items) = Inr (JArr kept) \<and> subseq kept items"
  using filter_items_entries [OF assms, of category]
  by simp

theorem filter_subsequence_witness:
  "list_all is_entry [c_png, a_pdf, photos, a_pdf] \<and>
   filter_items ''document'' (JArr [c_png, a_pdf, photos, a_pdf]) = Inr (JArr [a_pdf, a_pdf]) \<and>
   subseq [a_pdf, a_pdf] [c_png, a_pdf, photos, a_pdf]"
  using filter_subsequence [of "[c_png, a_pdf, photos, a_pdf]" "''document''"]
  by (simp add: is_entry_def filter_items_def filter_by_def is_file_of_def doc_types_def
      photos_def a_pdf_def b_PDF_def c_png_def)

section \<open>The listing page\<close>

lemma files_http_error:
  assumes "args_get a ''public_key'' = Some pk" and "pk \<noteq> []"
    and "listing env pk (args_get_default a ''path'' []) = StatusRaises e"
  shows "files env a =
           \<lparr>calls = [ListCall pk (args_get_default a ''path'' [])],
            flashes = [(ListingFailed, ''danger'')],
            outcome = Inr (Redirect UrlIndex)\<rparr>"
  using assms by (simp add: files_def get_public_resources_def except_handler_def)

lemma files_transport_failure:
  assumes "args_get a ''public_key'' = Some pk" and "pk \<noteq> []"
    and "listing env pk (args_get_default a ''path'' []) = GetRaises e"
  shows "files env a =
           \<lparr>calls = [ListCall pk (args_get_default a ''path'' [])],
            flashes = [],
            outcome = Inl UnboundLocalError\<rparr>"
  using assms by (simp add: files_def get_public_resources_def except_handler_def)

lemma filter_items_empty: "filter_items category (JArr []) = Inr (JArr [])"
  by (simp add: filter_items_def filter_by_def)

text \<open>
  C1. A browse request whose listing call fails in transport should be answered with a
  redirect to the index and a danger flash. It is not: when \<open>requests.get\<close> raises, the
  exception handler of \<open>get_public_resources\<close> reads the unassigned \<open>response\<close> and the
  \<open>UnboundLocalError\<close> leaves the handler of \<open>/files\<close>; nothing is flashed and no
  redirect is produced. (An error status is handled as claimed, \<open>files_http_error\<close>.)
\<close>

theorem files_unreachable_raises:
  "files offline [(''public_key'', link)] =
     \<lparr>calls = [ListCall link []], flashes = [], outcome = Inl UnboundLocalError\<rparr>"
  by (simp add: files_def get_public_resources_def except_handler_def offline_def
      args_get_def args_get_default_def link_def)

text \<open>
  C5. When the listing call returns a non-empty dictionary that has no \<open>_embedded\<close> key,
  or whose \<open>_embedded\<close> dictionary has no \<open>items\<close> key, the extracted entry list is empty,
  no error is signalled, and \<open>/files\<close> renders the page with that empty list, whatever
  the filter.
\<close>

theorem files_missing_items_renders_empty:
  assumes "args_get a ''public_key'' = Some pk" and "pk \<noteq> []"
    and "listing env pk (args_get_default a ''path'' []) = Response (Json (JObj kvs))"
    and "kvs \<noteq> []"
    and "map_of kvs ''_embedded'' = None \<or>
         (\<exists>embedded. map_of kvs ''_embedded'' = Some (JObj embedded) \<and>
                      map_of embedded ''items'' = None)"
  shows "embedded_items (JObj kvs) = Inr (JArr []) \<and>
         files env a =
           \<lparr>calls = [ListCall pk (args_get_default a ''path'' [])],
            flashes = [],
            outcome = Inr (RenderFiles (JArr []) pk (args_get_default a ''path'' []))\<rparr>"
proof -
  from assms(5) have e: "embedded_items (JObj kvs) = Inr (JArr [])"
    by (auto simp: embedded_items_def)
  with assms(1-4) show ?thesis
    by (simp add: files_def get_public_resources_def filter_items_empty Let_def)
qed

theorem files_missing_items_renders_empty_witness:
  "files (serving (JObj [(''_embedded'', JObj [(''total'', JNum 0)])]))
     [(''public_key'', link), (''filter'', ''document'')] =
     \<lparr>calls = [ListCall link []], flashes = [],
      outcome = Inr (RenderFiles (JArr []) link [])\<rparr>"
  using files_missing_items_renders_empty
    [of "[(''public_key'', link), (''filter'', ''document'')]" link
        "serving (JObj [(''_embedded'', JObj [(''total'', JNum 0)])])"
        "[(''_embedded'', JObj [(''total'', JNum 0)])]"]
  by (simp add: args_get_def args_get_default_def serving_def link_def)

text \<open>
  C9. When the listing call succeeds but its JSON body is a false value (the empty
  object, for example), \<open>/files\<close> answers as it does for a listing that failed with an
  error status: it flashes the danger message and redirects to the index, and renders
  no entry list.
\<close>

theorem files_falsy_body_is_failure:
  assumes "args_get a ''public_key'' = Some pk" and "pk \<noteq> []"
    and "listing env pk (args_get_default a ''path'' []) = Response (Json body)"
    and "\<not> truthy body"
  shows "files env a =
           \<lparr>calls = [ListCall pk (args_get_default a ''path'' [])],
            flashes = [(ListingFailed, ''danger'')],
            outcome = Inr (Redirect UrlIndex)\<rparr> \<and>
         files env a = files (env\<lparr>listing := \<lambda>public_key path. StatusRaises e\<rparr>) a"
  using assms by (simp add: files_def get_public_resources_def except_handler_def)

theorem files_falsy_body_is_failure_witness:
  "\<not> truthy (JObj []) \<and>
   files (serving (JObj [])) [(''public_key'', link)] =
     \<lparr>calls = [ListCall link []], flashes = [(ListingFailed, ''danger'')],
      outcome = Inr (Redirect UrlIndex)\<rparr>"
  using files_falsy_body_is_failure
    [of "[(''public_key'', link)]" link "serving (JObj [])" "JObj []"]
  by (simp add: args_get_def args_get_default_def serving_def link_def)

section \<open>The download relay\<close>

text \<open>
  C3. A download request in which \<open>public_key\<close>, \<open>path\<close> or \<open>name\<close> is absent or empty
  issues no outbound call at all and is answered with the danger flash for incorrect
  download parameters and a redirect to the listing page.
\<close>

theorem download_missing_params:
  assumes "\<not> present (args_get a ''public_key'') \<or> \<not> present (args_get a ''path'') \<or>
           \<not> present (args_get a ''name'')"
  shows "download env a =
           \<lparr>calls = [], flashes = [(BadDownloadParams, ''danger'')],
            outcome = Inr (Redirect (UrlFiles (args_get a ''public_key'')))\<rparr>"
proof -
  obtain k p n where "args_get a ''public_key'' = k" "args_get a ''path'' = p"
    "args_get a ''name'' = n" by simp
  with assms show ?thesis
    by (cases k; cases p; cases n) (auto simp: download_def)
qed

theorem download_missing_params_witness:
  "\<not> present (args_get [(''public_key'', link), (''path'', ''/a.pdf''), (''name'', [])] ''name'') \<and>
   download (serving (JObj [(''href'', JStr ''https://downloader/a.pdf'')]))
     [(''public_key'', link), (''path'', ''/a.pdf''), (''name'', [])] =
     \<lparr>calls = [], flashes = [(BadDownloadParams, ''danger'')],
      outcome = Inr (Redirect (UrlFiles (Some link)))\<rparr>"
  using download_missing_params
    [of "[(''public_key'', link), (''path'', ''/a.pdf''), (''name'', [])]"
        "serving (JObj [(''href'', JStr ''https://downloader/a.pdf'')])"]
  by (simp add: args_get_def)

text \<open>
  C4. When the download-href call succeeds and its JSON dictionary has no \<open>href\<close> field,
  or has \<open>href\<close> equal to null, the download is answered with the danger flash for a
  missing download link and a redirect to the listing page; the only outbound call is
  the href call, the bytes are never fetched.
\<close>

theorem download_no_href:
  assumes "args_get a ''public_key'' = Some pk" and "pk \<noteq> []"
    and "args_get a ''path'' = Some p" and "p \<noteq> []"
    and "args_get a ''name'' = Some n" and "n \<noteq> []"
    and "download_href env pk p = Response (Json (JObj kvs))"
    and "map_of kvs ''href'' = None \<or> map_of kvs ''href'' = Some JNull"
  shows "download env a =
           \<lparr>calls = [HrefCall pk p], flashes = [(HrefFailed, ''danger'')],
            outcome = Inr (Redirect (UrlFiles (Some pk)))\<rparr>"
  using assms by (auto simp: download_def get_download_href_def)

theorem download_no_href_witness:
  "download (serving (JObj [(''href'', JNull)]))
     [(''public_key'', link), (''path'', ''/a.pdf''), (''name'', ''a.pdf'')] =
     \<lparr>calls = [HrefCall link ''/a.pdf''], flashes = [(HrefFailed, ''danger'')],
      outcome = Inr (Redirect (UrlFiles (Some link)))\<rparr>"
  using download_no_href
    [of "[(''public_key'', link), (''path'', ''/a.pdf''), (''name'', ''a.pdf'')]" link
        "''/a.pdf''" "''a.pdf''" "serving (JObj [(''href'', JNull)])" "[(''href'', JNull)]"]
  by (simp add: args_get_def serving_def link_def)

end
